theory Spec2Isabelle
  imports Main "HOL-Library.Sublist"
begin

section \<open>Values and exceptions of the loader\<close>

text \<open>
  The loader of \<^verbatim>\<open>analysis/scripts/data_loader.py\<close> works on whatever
  \<^verbatim>\<open>json.load\<close> returns: \<^verbatim>\<open>None\<close>, booleans, integers, floats,
  strings, lists and dictionaries with string keys. The code never computes with a
  float of the file, so the type of those floats is a parameter. A dictionary is an
  association list read through \<open>map_of\<close>. A table cell holds such a value as
  well; there \<open>JNull\<close> is the missing marker of a cell, Python's \<^verbatim>\<open>None\<close> or
  the NaN that pandas puts in its place in a numeric column.

  A float is one that \<^verbatim>\<open>json.load\<close> parsed, or the float64 that an integer
  becomes when pandas stores it in a float64 column; that one is given by the integer
  it is equal to.
\<close>

datatype 'f pyfloat =
    Parsed 'f
  | Rounded int

datatype 'f json =
    JNull
  | JBool bool
  | JInt int
  | JFloat "'f pyfloat"
  | JStr string
  | JArr "'f json list"
  | JObj "(string \<times> 'f json) list"

text \<open>
  The exceptions that can arise, with the message of those that the loader prints.
  \<open>JSONDecodeError\<close> is a subclass of \<^verbatim>\<open>ValueError\<close> in Python.
\<close>

datatype error =
    ValueError string
  | KeyError string
  | IndexError string
  | TypeError
  | AttributeError
  | FileNotFoundError
  | JSONDecodeError

text \<open>\<^verbatim>\<open>str(e)\<close>, as the f-strings of \<^verbatim>\<open>load_all_data\<close> print it. Only an
  exception with a message is ever printed; the others get the name of their class.\<close>

fun str_error :: "error \<Rightarrow> string" where
  "str_error (ValueError m) = m"
| "str_error (KeyError m) = m"
| "str_error (IndexError m) = m"
| "str_error TypeError = ''TypeError''"
| "str_error AttributeError = ''AttributeError''"
| "str_error FileNotFoundError = ''FileNotFoundError''"
| "str_error JSONDecodeError = ''JSONDecodeError''"

text \<open>\<^verbatim>\<open>except (ValueError, KeyError, IndexError)\<close>: the test is by class, so
  a subclass of \<^verbatim>\<open>ValueError\<close> matches too.\<close>

fun is_caught :: "error \<Rightarrow> bool" where
  "is_caught (ValueError _) = True"
| "is_caught JSONDecodeError = True"
| "is_caught (KeyError _) = True"
| "is_caught (IndexError _) = True"
| "is_caught TypeError = False"
| "is_caught AttributeError = False"
| "is_caught FileNotFoundError = False"

text \<open>The decimal text of a natural number: \<^verbatim>\<open>repr(i)\<close>, the message of
  \<^verbatim>\<open>KeyError(i)\<close>.\<close>

fun repr_nat :: "nat \<Rightarrow> string" where
  "repr_nat n =
     (if n < 10 then [''0123456789'' ! n]
      else repr_nat (n div 10) @ [''0123456789'' ! (n mod 10)])"

declare repr_nat.simps [simp del]

subsection \<open>The operations of Python the loader applies to a value\<close>

text \<open>The keys of a dictionary in order, each once.\<close>

definition dict_keys :: "(string \<times> 'v) list \<Rightarrow> string list" where
  "dict_keys kvs = remdups (map fst kvs)"

text \<open>\<^verbatim>\<open>key in v\<close>: a key of a dictionary, an element of a list, a substring
  of a string; other values are not containers.\<close>

fun py_contains :: "'f json \<Rightarrow> string \<Rightarrow> error + bool" where
  "py_contains (JObj kvs) key = Inr (map_of kvs key \<noteq> None)"
| "py_contains (JArr xs) key = Inr (JStr key \<in> set xs)"
| "py_contains (JStr s) key = Inr (sublist key s)"
| "py_contains JNull key = Inl TypeError"
| "py_contains (JBool b) key = Inl TypeError"
| "py_contains (JInt n) key = Inl TypeError"
| "py_contains (JFloat x) key = Inl TypeError"

text \<open>\<^verbatim>\<open>v[key]\<close> with a string key.\<close>

fun py_getitem_key :: "'f json \<Rightarrow> string \<Rightarrow> error + 'f json" where
  "py_getitem_key (JObj kvs) key =
     (case map_of kvs key of
        None \<Rightarrow> Inl (KeyError ([CHR 0x27] @ key @ [CHR 0x27]))
      | Some v \<Rightarrow> Inr v)"
| "py_getitem_key (JArr xs) key = Inl TypeError"
| "py_getitem_key (JStr s) key = Inl TypeError"
| "py_getitem_key JNull key = Inl TypeError"
| "py_getitem_key (JBool b) key = Inl TypeError"
| "py_getitem_key (JInt n) key = Inl TypeError"
| "py_getitem_key (JFloat x) key = Inl TypeError"

text \<open>\<^verbatim>\<open>v.get(key, default)\<close>: only a dictionary has the method.\<close>

fun py_get :: "'f json \<Rightarrow> string \<Rightarrow> 'f json \<Rightarrow> error + 'f json" where
  "py_get (JObj kvs) key dflt =
     Inr (case map_of kvs key of None \<Rightarrow> dflt | Some v \<Rightarrow> v)"
| "py_get (JArr xs) key dflt = Inl AttributeError"
| "py_get (JStr s) key dflt = Inl AttributeError"
| "py_get JNull key dflt = Inl AttributeError"
| "py_get (JBool b) key dflt = Inl AttributeError"
| "py_get (JInt n) key dflt = Inl AttributeError"
| "py_get (JFloat x) key dflt = Inl AttributeError"

text \<open>\<^verbatim>\<open>len(v)\<close>.\<close>

fun py_len :: "'f json \<Rightarrow> error + nat" where
  "py_len (JArr xs) = Inr (length xs)"
| "py_len (JStr s) = Inr (length s)"
| "py_len (JObj kvs) = Inr (length (dict_keys kvs))"
| "py_len JNull = Inl TypeError"
| "py_len (JBool b) = Inl TypeError"
| "py_len (JInt n) = Inl TypeError"
| "py_len (JFloat x) = Inl TypeError"

text \<open>\<^verbatim>\<open>v[i]\<close> with the index of \<^verbatim>\<open>enumerate\<close>, which is never
  negative. A dictionary of the document has string keys only, so an integer is
  not among them.\<close>

fun py_getitem :: "'f json \<Rightarrow> nat \<Rightarrow> error + 'f json" where
  "py_getitem (JArr xs) i =
     (if i < length xs then Inr (xs ! i) else Inl (IndexError ''list index out of range''))"
| "py_getitem (JStr s) i =
     (if i < length s then Inr (JStr [s ! i]) else Inl (IndexError ''string index out of range''))"
| "py_getitem (JObj kvs) i = Inl (KeyError (repr_nat i))"
| "py_getitem JNull i = Inl TypeError"
| "py_getitem (JBool b) i = Inl TypeError"
| "py_getitem (JInt n) i = Inl TypeError"
| "py_getitem (JFloat x) i = Inl TypeError"

text \<open>The items a \<^verbatim>\<open>for\<close> loop over \<open>v\<close> visits.\<close>

fun py_iter :: "'f json \<Rightarrow> error + 'f json list" where
  "py_iter (JArr xs) = Inr xs"
| "py_iter (JStr s) = Inr (map (\<lambda>c. JStr [c]) s)"
| "py_iter (JObj kvs) = Inr (map JStr (dict_keys kvs))"
| "py_iter JNull = Inl TypeError"
| "py_iter (JBool b) = Inl TypeError"
| "py_iter (JInt n) = Inl TypeError"
| "py_iter (JFloat x) = Inl TypeError"

section \<open>Tables\<close>

text \<open>
  A pandas \<^verbatim>\<open>DataFrame\<close> by what the loader and its callers observe: the
  length of its index and its labelled columns, in order.
\<close>

record 'f dataframe =
  index_len :: nat
  cols :: "(string \<times> 'f json list) list"

text \<open>\<^verbatim>\<open>pd.DataFrame()\<close>.\<close>

definition pd_empty :: "'f dataframe" where
  "pd_empty = \<lparr>index_len = 0, cols = []\<rparr>"

text \<open>
  \<^verbatim>\<open>float(n)\<close>, as an integer: \<open>n\<close> rounded to 53 significant bits, to the
  nearest and on a tie to the even one. An integer beyond the range of float64 (of
  more than 1024 bits) is rounded in the same way here.
\<close>

fun bit_length :: "nat \<Rightarrow> nat" where
  "bit_length n = (if n = 0 then 0 else Suc (bit_length (n div 2)))"

declare bit_length.simps [simp del]

definition double_of_int :: "int \<Rightarrow> int" where
  "double_of_int n =
     (let a = nat \<bar>n\<bar>;
          e = bit_length a - 53;
          q = a div 2 ^ e;
          r = a mod 2 ^ e
      in if e = 0 then n
         else sgn n *
              int ((if 2 ^ e < 2 * r \<or> (2 * r = 2 ^ e \<and> odd q) then q + 1 else q) * 2 ^ e))"

text \<open>
  The dtype pandas infers for a column of Python values, by one scan from the left
  (\<^verbatim>\<open>lib.maybe_convert_objects\<close>), as far as it changes a cell. A column of
  integers, floats and \<^verbatim>\<open>None\<close> only becomes float64 when it holds a float, or
  an integer and a \<^verbatim>\<open>None\<close>: then every integer \<open>n\<close> in it is stored as
  \<^verbatim>\<open>float(n)\<close>. It does not when, before its first \<^verbatim>\<open>None\<close>, an integer is
  outside the range of int64 and uint64, or one is negative and another above the
  range of int64: such a column keeps its Python values, as does every column that
  holds a boolean, a string, a list or a dictionary. A column of integers alone, and
  one of \<^verbatim>\<open>None\<close> alone, keep their values too.
\<close>

fun is_none :: "'f json \<Rightarrow> bool" where
  "is_none JNull = True"
| "is_none v = False"

fun is_int :: "'f json \<Rightarrow> bool" where
  "is_int (JInt n) = True"
| "is_int v = False"

fun is_float :: "'f json \<Rightarrow> bool" where
  "is_float (JFloat x) = True"
| "is_float v = False"

fun ints_of :: "'f json list \<Rightarrow> int list" where
  "ints_of [] = []"
| "ints_of (JInt n # vs) = n # ints_of vs"
| "ints_of (v # vs) = ints_of vs"

definition int64_overflow :: "int list \<Rightarrow> bool" where
  "int64_overflow ns \<longleftrightarrow>
     list_ex (\<lambda>n. 2 ^ 64 - 1 < n \<or> n < - (2 ^ 63)) ns \<or>
     (list_ex (\<lambda>n. 2 ^ 63 - 1 < n) ns \<and> list_ex (\<lambda>n. n < 0) ns)"

definition float64_column :: "'f json list \<Rightarrow> bool" where
  "float64_column vs \<longleftrightarrow>
     list_all (\<lambda>v. is_none v \<or> is_int v \<or> is_float v) vs \<and>
     \<not> int64_overflow (ints_of (takeWhile (\<lambda>v. \<not> is_none v) vs)) \<and>
     (list_ex is_float vs \<or> (list_ex is_none vs \<and> list_ex is_int vs))"

fun to_float64 :: "'f json \<Rightarrow> 'f json" where
  "to_float64 (JInt n) = JFloat (Rounded (double_of_int n))"
| "to_float64 v = v"

definition store_column :: "'f json list \<Rightarrow> 'f json list" where
  "store_column vs = (if float64_column vs then map to_float64 vs else vs)"


text \<open>
  \<^verbatim>\<open>pd.DataFrame(records)\<close> for a list of dictionaries: one row per
  dictionary; the columns are the keys of the dictionaries in the order in which
  they first occur, so there is none when the list is empty; a key that a
  dictionary lacks gives a missing cell; each column is stored with the dtype
  inferred for it.
\<close>

definition record_keys :: "(string \<times> 'v) list list \<Rightarrow> string list" where
  "record_keys records =
     fold (\<lambda>r ks. ks @ filter (\<lambda>k. k \<notin> set ks) (dict_keys r)) records []"

definition pd_DataFrame :: "(string \<times> 'f json) list list \<Rightarrow> 'f dataframe" where
  "pd_DataFrame records =
     \<lparr>index_len = length records,
      cols = map (\<lambda>c. (c, store_column
                              (map (\<lambda>r. case map_of r c of None \<Rightarrow> JNull | Some v \<Rightarrow> v)
                                 records)))
               (record_keys records)\<rparr>"

text \<open>
  \<^verbatim>\<open>df[name] = range(len(df))\<close>: the column \<open>name\<close> is replaced where it
  exists and appended otherwise. The values are as many as the index is long, so
  the length check of pandas passes.
\<close>

definition assign_range :: "'f dataframe \<Rightarrow> string \<Rightarrow> 'f dataframe" where
  "assign_range df name =
     (let vals = map (\<lambda>i. JInt (int i)) [0..<index_len df]
      in df\<lparr>cols :=
            (if name \<in> set (map fst (cols df))
             then map (\<lambda>(c, vs). if c = name then (c, vals) else (c, vs)) (cols df)
             else cols df @ [(name, vals)])\<rparr>)"

text \<open>What a caller reads from a table: its column labels, a column, a row.\<close>

definition columns :: "'f dataframe \<Rightarrow> string list" where
  "columns df = map fst (cols df)"

definition column :: "'f dataframe \<Rightarrow> string \<Rightarrow> 'f json list option" where
  "column df name = map_of (cols df) name"

definition row :: "'f dataframe \<Rightarrow> nat \<Rightarrow> string \<Rightarrow> 'f json option" where
  "row df i name =
     (case map_of (cols df) name of
        None \<Rightarrow> None
      | Some vs \<Rightarrow> if i < index_len df then Some (vs ! i) else None)"


section \<open>The projections\<close>

text \<open>
  The loop \<^verbatim>\<open>for i, x in enumerate(items): records.append(body(i, x))\<close>,
  which an exception of the body leaves.
\<close>

fun enumerate_loop ::
  "(nat \<Rightarrow> 'a \<Rightarrow> error + 'b) \<Rightarrow> nat \<Rightarrow> 'a list \<Rightarrow> 'b list \<Rightarrow> error + 'b list" where
  "enumerate_loop body i [] records = Inr records"
| "enumerate_loop body i (x # xs) records =
     (case body i x of
        Inl e \<Rightarrow> Inl e
      | Inr r \<Rightarrow> enumerate_loop body (Suc i) xs (records @ [r]))"

text \<open>
  \<^verbatim>\<open>data.get(key, [])[i] if i < len(data.get(key, [])) else None\<close>: the
  condition is evaluated first.
\<close>

definition series_at :: "'f json \<Rightarrow> string \<Rightarrow> nat \<Rightarrow> error + 'f json" where
  "series_at data key i =
     (case py_get data key (JArr []) of
        Inl e \<Rightarrow> Inl e
      | Inr s \<Rightarrow>
          (case py_len s of
             Inl e \<Rightarrow> Inl e
           | Inr n \<Rightarrow>
               if i < n
               then (case py_get data key (JArr []) of
                       Inl e \<Rightarrow> Inl e
                     | Inr s' \<Rightarrow> py_getitem s' i)
               else Inr JNull))"

text \<open>
  The statements that open every projection: the test for \<^verbatim>\<open>'data'\<close>,
  \<^verbatim>\<open>data = stats['data']\<close>, and the items of
  \<^verbatim>\<open>data.get('time', [])\<close> that the loop visits.
\<close>

definition data_and_times :: "'f json \<Rightarrow> error + ('f json \<times> 'f json list)" where
  "data_and_times stats =
     (case py_contains stats ''data'' of
        Inl e \<Rightarrow> Inl e
      | Inr present \<Rightarrow>
          if \<not> present then Inl (ValueError ''No data found in statistics'')
          else
            (case py_getitem_key stats ''data'' of
               Inl e \<Rightarrow> Inl e
             | Inr data \<Rightarrow>
                 (case py_get data ''time'' (JArr []) of
                    Inl e \<Rightarrow> Inl e
                  | Inr tv \<Rightarrow>
                      (case py_iter tv of
                         Inl e \<Rightarrow> Inl e
                       | Inr items \<Rightarrow> Inr (data, items)))))"

text \<open>The dictionary literal of each loop body; its values are evaluated in order.\<close>

definition population_record ::
  "'f json \<Rightarrow> nat \<Rightarrow> 'f json \<Rightarrow> error + (string \<times> 'f json) list" where
  "population_record data i time =
     (case series_at data ''aliveOrganisms'' i of
        Inl e \<Rightarrow> Inl e
      | Inr a \<Rightarrow>
          (case series_at data ''foodCount'' i of
             Inl e \<Rightarrow> Inl e
           | Inr f \<Rightarrow>
               (case series_at data ''averageEnergy'' i of
                  Inl e \<Rightarrow> Inl e
                | Inr en \<Rightarrow>
                    Inr [(''time'', time), (''alive_organisms'', a),
                         (''food_count'', f), (''average_energy'', en)])))"

definition species_record ::
  "'f json \<Rightarrow> nat \<Rightarrow> 'f json \<Rightarrow> error + (string \<times> 'f json) list" where
  "species_record data i time =
     (case series_at data ''speciesCount'' i of
        Inl e \<Rightarrow> Inl e
      | Inr s \<Rightarrow>
          (case series_at data ''topSpeciesCount'' i of
             Inl e \<Rightarrow> Inl e
           | Inr t \<Rightarrow>
               Inr [(''time'', time), (''species_count'', s), (''top_species_count'', t)]))"

definition interactions_record ::
  "'f json \<Rightarrow> nat \<Rightarrow> 'f json \<Rightarrow> error + (string \<times> 'f json) list" where
  "interactions_record data i time =
     (case series_at data ''combatKills'' i of
        Inl e \<Rightarrow> Inl e
      | Inr k \<Rightarrow>
          (case series_at data ''cooperationEvents'' i of
             Inl e \<Rightarrow> Inl e
           | Inr c \<Rightarrow>
               (case series_at data ''averageGenomeLength'' i of
                  Inl e \<Rightarrow> Inl e
                | Inr g \<Rightarrow>
                    Inr [(''time'', time), (''combat_kills'', k),
                         (''cooperation_events'', c), (''average_genome_length'', g)])))"

definition to_population_dataframe :: "'f json \<Rightarrow> error + 'f dataframe" where
  "to_population_dataframe stats =
     (case data_and_times stats of
        Inl e \<Rightarrow> Inl e
      | Inr (data, items) \<Rightarrow>
          (case enumerate_loop (population_record data) 0 items [] of
             Inl e \<Rightarrow> Inl e
           | Inr records \<Rightarrow> Inr (assign_range (pd_DataFrame records) ''step'')))"

definition to_species_dataframe :: "'f json \<Rightarrow> error + 'f dataframe" where
  "to_species_dataframe stats =
     (case data_and_times stats of
        Inl e \<Rightarrow> Inl e
      | Inr (data, items) \<Rightarrow>
          (case enumerate_loop (species_record data) 0 items [] of
             Inl e \<Rightarrow> Inl e
           | Inr records \<Rightarrow> Inr (assign_range (pd_DataFrame records) ''step'')))"

definition to_interactions_dataframe :: "'f json \<Rightarrow> error + 'f dataframe" where
  "to_interactions_dataframe stats =
     (case data_and_times stats of
        Inl e \<Rightarrow> Inl e
      | Inr (data, items) \<Rightarrow>
          (case enumerate_loop (interactions_record data) 0 items [] of
             Inl e \<Rightarrow> Inl e
           | Inr records \<Rightarrow> Inr (assign_range (pd_DataFrame records) ''step'')))"

text \<open>\<^verbatim>\<open>stats.get('metadata', {})\<close>.\<close>

definition get_metadata :: "'f json \<Rightarrow> error + 'f json" where
  "get_metadata stats = py_get stats ''metadata'' (JObj [])"

section \<open>Reading a file and loading everything\<close>

text \<open>
  What the loader takes from outside the module: how \<^verbatim>\<open>Path(data_dir) / filename\<close>
  joins a path, the text of each file that can be opened (no entry: the path does
  not exist), and the parser \<^verbatim>\<open>json.load\<close> (no result: the text is not valid JSON).
  Other failures of \<^verbatim>\<open>open\<close> (a directory, a missing permission) are not modelled.
\<close>

record 'f world =
  joinpath :: "string \<Rightarrow> string \<Rightarrow> string"
  files :: "string \<rightharpoonup> string"
  json_load :: "string \<rightharpoonup> 'f json"

record loader =
  data_dir :: string

text \<open>The constructor, with its default directory.\<close>

definition SimulationDataLoader :: "string option \<Rightarrow> loader" where
  "SimulationDataLoader dir =
     \<lparr>data_dir = (case dir of None \<Rightarrow> ''../data'' | Some d \<Rightarrow> d)\<rparr>"

definition load_statistics :: "'f world \<Rightarrow> loader \<Rightarrow> string \<Rightarrow> error + 'f json" where
  "load_statistics w self filename =
     (let filepath = joinpath w (data_dir self) filename
      in case files w filepath of
           None \<Rightarrow> Inl FileNotFoundError
         | Some text \<Rightarrow>
             (case json_load w text of
                None \<Rightarrow> Inl JSONDecodeError
              | Some stats \<Rightarrow> Inr stats))"

text \<open>The value \<^verbatim>\<open>load_all_data\<close> returns: a dictionary with exactly these four keys.\<close>

record 'f loaded =
  population :: "'f dataframe"
  species :: "'f dataframe"
  interactions :: "'f dataframe"
  metadata :: "'f json"

text \<open>
  One \<^verbatim>\<open>try\<close> block of \<^verbatim>\<open>load_all_data\<close>: the lines printed, and the table
  stored in the result or the exception that leaves the block.
\<close>

definition try_projection ::
  "string \<Rightarrow> error + 'f dataframe \<Rightarrow> string list \<times> (error + 'f dataframe)" where
  "try_projection name outcome =
     (case outcome of
        Inr df \<Rightarrow> ([], Inr df)
      | Inl e \<Rightarrow>
          if is_caught e
          then ([''Warning: Could not load '' @ name @ '' data: '' @ str_error e], Inr pd_empty)
          else ([], Inl e))"

text \<open>\<^verbatim>\<open>load_all_data\<close>: the lines printed before it returns or raises, and its outcome.\<close>

definition load_all_data ::
  "'f world \<Rightarrow> loader \<Rightarrow> string \<Rightarrow> string list \<times> (error + 'f loaded)" where
  "load_all_data w self filename =
     (case load_statistics w self filename of
        Inl e \<Rightarrow> ([], Inl e)
      | Inr stats \<Rightarrow>
          (case try_projection ''population'' (to_population_dataframe stats) of
             (out1, Inl e) \<Rightarrow> (out1, Inl e)
           | (out1, Inr p) \<Rightarrow>
               (case try_projection ''species'' (to_species_dataframe stats) of
                  (out2, Inl e) \<Rightarrow> (out1 @ out2, Inl e)
                | (out2, Inr s) \<Rightarrow>
                    (case try_projection ''interactions'' (to_interactions_dataframe stats) of
                       (out3, Inl e) \<Rightarrow> (out1 @ out2 @ out3, Inl e)
                     | (out3, Inr i) \<Rightarrow>
                         (case get_metadata stats of
                            Inl e \<Rightarrow> (out1 @ out2 @ out3, Inl e)
                          | Inr m \<Rightarrow>
                              (out1 @ out2 @ out3,
                               Inr \<lparr>population = p, species = s,
                                    interactions = i, metadata = m\<rparr>))))))"

text \<open>The module-level \<^verbatim>\<open>load_simulation\<close>, with its default directory.\<close>

definition load_simulation ::
  "'f world \<Rightarrow> string \<Rightarrow> string option \<Rightarrow> string list \<times> (error + 'f loaded)" where
  "load_simulation w filename dir =
     (let loader = SimulationDataLoader (Some (case dir of None \<Rightarrow> ''../data'' | Some d \<Rightarrow> d))
      in load_all_data w loader filename)"

section \<open>Notions the properties are stated with\<close>

text \<open>
  The statistics document is a JSON object, \<open>JObj kvs\<close>, and its \<^verbatim>\<open>data\<close> a
  mapping of named arrays. \<open>series d key\<close> is the array named \<open>key\<close> in the
  mapping \<open>d\<close>, the empty sequence when the key is absent; \<open>is_series d key\<close>
  says that the key is absent or names an array.
\<close>

definition series :: "(string \<times> 'f json) list \<Rightarrow> string \<Rightarrow> 'f json list" where
  "series d key = (case map_of d key of Some (JArr xs) \<Rightarrow> xs | _ \<Rightarrow> [])"

definition is_series :: "(string \<times> 'f json) list \<Rightarrow> string \<Rightarrow> bool" where
  "is_series d key =
     (case map_of d key of None \<Rightarrow> True | Some (JArr xs) \<Rightarrow> True | Some _ \<Rightarrow> False)"

text \<open>The index series and the eight metric series the three projections read.\<close>

definition named_arrays :: "(string \<times> 'f json) list \<Rightarrow> bool" where
  "named_arrays d \<longleftrightarrow>
     is_series d ''time'' \<and>
     is_series d ''aliveOrganisms'' \<and> is_series d ''foodCount'' \<and>
     is_series d ''averageEnergy'' \<and>
     is_series d ''speciesCount'' \<and> is_series d ''topSpeciesCount'' \<and>
     is_series d ''combatKills'' \<and> is_series d ''cooperationEvents'' \<and>
     is_series d ''averageGenomeLength''"

text \<open>The series each projection requests, with the field each has in a row.\<close>

definition population_series :: "(string \<times> string) list" where
  "population_series =
     [(''aliveOrganisms'', ''alive_organisms''), (''foodCount'', ''food_count''),
      (''averageEnergy'', ''average_energy'')]"

definition species_series :: "(string \<times> string) list" where
  "species_series =
     [(''speciesCount'', ''species_count''), (''topSpeciesCount'', ''top_species_count'')]"

definition interactions_series :: "(string \<times> string) list" where
  "interactions_series =
     [(''combatKills'', ''combat_kills''), (''cooperationEvents'', ''cooperation_events''),
      (''averageGenomeLength'', ''average_genome_length'')]"

text \<open>The eight metric series.\<close>

definition metric_keys :: "string list" where
  "metric_keys = map fst (population_series @ species_series @ interactions_series)"

text \<open>The value of a series at a position, the missing marker beyond its end.\<close>

definition at_or_missing :: "'f json list \<Rightarrow> nat \<Rightarrow> 'f json" where
  "at_or_missing xs i = (if i < length xs then xs ! i else JNull)"

text \<open>The column of a series in a table of \<open>n\<close> rows, before it is stored.\<close>

definition ragged_column :: "nat \<Rightarrow> 'f json list \<Rightarrow> 'f json list" where
  "ragged_column n xs = map (at_or_missing xs) [0..<n]"


text \<open>
  The table a projection builds from an index series and the requested series, in
  closed form: no column but \<^verbatim>\<open>step\<close> when the index series is empty.
\<close>

definition aligned_table ::
  "'f json list \<Rightarrow> (string \<times> 'f json list) list \<Rightarrow> 'f dataframe" where
  "aligned_table ts named =
     \<lparr>index_len = length ts,
      cols = (if ts = [] then []
              else (''time'', store_column ts) #
                   map (\<lambda>(f, xs). (f, store_column (ragged_column (length ts) xs))) named)
             @ [(''step'', map (\<lambda>i. JInt (int i)) [0..<length ts])]\<rparr>"

subsection \<open>Example documents and files\<close>

text \<open>None of the examples holds a float; their type of floats is \<open>unit\<close>.\<close>

text \<open>The ragged document \<^verbatim>\<open>{"data": {"time": [0,1,2], "aliveOrganisms": [10,9]}}\<close>.\<close>

definition ragged_data :: "(string \<times> unit json) list" where
  "ragged_data =
     [(''time'', JArr [JInt 0, JInt 1, JInt 2]), (''aliveOrganisms'', JArr [JInt 10, JInt 9])]"

definition ragged_doc :: "(string \<times> unit json) list" where
  "ragged_doc = [(''data'', JObj ragged_data)]"

text \<open>A document whose series run on after the end of \<^verbatim>\<open>time\<close>, and the same
  document with other values there.\<close>

definition overlong_data :: "(string \<times> unit json) list" where
  "overlong_data =
     [(''time'', JArr [JInt 0, JInt 5]),
      (''foodCount'', JArr [JInt 7, JInt 8, JInt 9, JInt 10]),
      (''speciesCount'', JArr [JInt 1, JInt 2, JInt 3])]"

definition overlong_data' :: "(string \<times> unit json) list" where
  "overlong_data' =
     [(''time'', JArr [JInt 0, JInt 5]),
      (''foodCount'', JArr [JInt 7, JInt 8]),
      (''speciesCount'', JArr [JInt 1, JInt 2, JStr ''x''])]"




text \<open>Documents whose \<^verbatim>\<open>time\<close> series is empty or absent.\<close>

definition emptytime_doc :: "unit json" where
  "emptytime_doc = JObj [(''data'', JObj [(''time'', JArr []), (''foodCount'', JArr [JInt 4])])]"

definition notime_doc :: "unit json" where
  "notime_doc = JObj [(''data'', JObj [])]"

text \<open>A document with no \<^verbatim>\<open>data\<close>, and documents whose \<^verbatim>\<open>data\<close> is not a
  mapping of arrays.\<close>

definition nodata_doc :: "(string \<times> unit json) list" where
  "nodata_doc = [(''metadata'', JObj [(''seed'', JInt 7)])]"

definition listdata_doc :: "unit json" where
  "listdata_doc = JObj [(''data'', JArr [])]"

definition numtime_doc :: "unit json" where
  "numtime_doc = JObj [(''data'', JObj [(''time'', JInt 5)])]"

text \<open>A directory with four files, one of them not JSON; \<^verbatim>\<open>missing.json\<close> is
  not in it.\<close>

definition example_world :: "unit world" where
  "example_world =
     \<lparr>joinpath = (\<lambda>dir name. dir @ ''/'' @ name),
      files = [''../data/nodata.json'' \<mapsto> ''A'', ''../data/broken.json'' \<mapsto> ''B'',
               ''../data/listdata.json'' \<mapsto> ''C'', ''../data/numtime.json'' \<mapsto> ''D''],
      json_load = [''A'' \<mapsto> JObj nodata_doc, ''C'' \<mapsto> listdata_doc, ''D'' \<mapsto> numtime_doc]\<rparr>"

section \<open>The loop and the table it yields\<close>

lemma series_at_series:
  "is_series d key \<Longrightarrow> series_at (JObj d) key i = Inr (at_or_missing (series d key) i)"
  by (auto simp: is_series_def series_at_def series_def at_or_missing_def
      split: option.splits json.splits)

lemma enumerate_loop_total:
  assumes "\<And>i x. body i x = Inr (g i x)"
  shows "enumerate_loop body i xs acc = Inr (acc @ map (\<lambda>(j, x). g j x) (enumerate i xs))"
  by (induction xs arbitrary: i acc) (simp_all add: assms)

lemma data_and_times_series:
  "map_of kvs ''data'' = Some (JObj d) \<Longrightarrow> is_series d ''time'' \<Longrightarrow>
   data_and_times (JObj kvs) = Inr (JObj d, series d ''time'')"
  by (auto simp: data_and_times_def is_series_def series_def split: option.splits json.splits)

lemma fold_keys_fixed:
  "(\<And>r. r \<in> set rs \<Longrightarrow> dict_keys r = ks) \<Longrightarrow>
   fold (\<lambda>r acc. acc @ filter (\<lambda>k. k \<notin> set acc) (dict_keys r)) rs ks = ks"
  by (induction rs) simp_all

lemma record_keys_uniform:
  assumes "\<And>r. r \<in> set rs \<Longrightarrow> dict_keys r = ks"
  shows "record_keys rs = (if rs = [] then [] else ks)"
proof (cases rs)
  case Nil
  then show ?thesis by (simp add: record_keys_def)
next
  case (Cons r rs')
  have "dict_keys r = ks" using assms Cons by simp
  moreover have "fold (\<lambda>r acc. acc @ filter (\<lambda>k. k \<notin> set acc) (dict_keys r)) rs' ks = ks"
    using assms Cons by (intro fold_keys_fixed) simp
  ultimately show ?thesis using Cons by (simp add: record_keys_def)
qed

lemma map_enumerate_fst: "map (\<lambda>(j, x). f j) (enumerate i xs) = map f [i..<i + length xs]"
proof (induction xs arbitrary: i)
  case Nil
  show ?case by simp
next
  case (Cons x xs)
  have "i < i + length (x # xs)" by simp
  then have "[i..<i + length (x # xs)] = i # [Suc i..<i + length (x # xs)]"
    by (rule upt_conv_Cons)
  then show ?case using Cons [of "Suc i"] by simp
qed

lemma map_enumerate_snd: "map (\<lambda>(j, x). h x) (enumerate i xs) = map h xs"
  by (induction xs arbitrary: i) simp_all

lemma enumerate_Nil_iff: "enumerate i xs = [] \<longleftrightarrow> xs = []"
  by (cases xs) simp_all

lemma map_map_enumerate:
  "map F (map (\<lambda>(j, x). g j x) ys) = map (\<lambda>(j, x). F (g j x)) ys"
  by (induction ys) auto

lemmas frame_simps =
  enumerate_Nil_iff map_map_enumerate map_enumerate_fst
  map_enumerate_snd [where h = "\<lambda>x. x", simplified]

lemma length_store_column [simp]: "length (store_column vs) = length vs"
  by (simp add: store_column_def)

lemma nth_store_column:
  "j < length vs \<Longrightarrow>
   store_column vs ! j = (if float64_column vs then to_float64 (vs ! j) else vs ! j)"
  by (simp add: store_column_def)

lemma length_ragged_column [simp]: "length (ragged_column n xs) = n"
  by (simp add: ragged_column_def)

lemma nth_ragged_column: "j < n \<Longrightarrow> ragged_column n xs ! j = at_or_missing xs j"
  by (simp add: ragged_column_def)

lemma population_closed_form:
  assumes "map_of kvs ''data'' = Some (JObj d)"
    and "is_series d ''time''" and "is_series d ''aliveOrganisms''"
    and "is_series d ''foodCount''" and "is_series d ''averageEnergy''"
  shows "to_population_dataframe (JObj kvs) =
         Inr (aligned_table (series d ''time'')
                [(''alive_organisms'', series d ''aliveOrganisms''),
                 (''food_count'', series d ''foodCount''),
                 (''average_energy'', series d ''averageEnergy'')])"
proof -
  let ?g = "\<lambda>i t. [(''time'', t),
      (''alive_organisms'', at_or_missing (series d ''aliveOrganisms'') i),
      (''food_count'', at_or_missing (series d ''foodCount'') i),
      (''average_energy'', at_or_missing (series d ''averageEnergy'') i)]"
  let ?ts = "series d ''time''"
  let ?rs = "map (\<lambda>(j, x). ?g j x) (enumerate 0 ?ts)"
  have body: "\<And>i t. population_record (JObj d) i t = Inr (?g i t)"
    using assms by (simp add: population_record_def series_at_series)
  have loop: "enumerate_loop (population_record (JObj d)) 0 ?ts [] = Inr ?rs"
    using enumerate_loop_total [of "population_record (JObj d)" ?g 0 ?ts "[]"] body
    by simp
  have keys: "record_keys ?rs = (if ?rs = [] then []
      else [''time'', ''alive_organisms'', ''food_count'', ''average_energy''])"
    by (rule record_keys_uniform) (auto simp: dict_keys_def)
  have frame: "pd_DataFrame ?rs =
      \<lparr>index_len = length ?ts,
       cols = (if ?ts = [] then []
               else [(''time'', store_column ?ts),
                     (''alive_organisms'',
                      store_column (ragged_column (length ?ts) (series d ''aliveOrganisms''))),
                     (''food_count'',
                      store_column (ragged_column (length ?ts) (series d ''foodCount''))),
                     (''average_energy'',
                      store_column (ragged_column (length ?ts) (series d ''averageEnergy'')))])\<rparr>"
    unfolding pd_DataFrame_def keys by (simp add: frame_simps ragged_column_def del: map_map)
  show ?thesis
    unfolding to_population_dataframe_def data_and_times_series [OF assms(1,2)]
    by (simp add: loop frame assign_range_def aligned_table_def)
qed

lemma species_closed_form:
  assumes "map_of kvs ''data'' = Some (JObj d)"
    and "is_series d ''time''" and "is_series d ''speciesCount''"
    and "is_series d ''topSpeciesCount''"
  shows "to_species_dataframe (JObj kvs) =
         Inr (aligned_table (series d ''time'')
                [(''species_count'', series d ''speciesCount''),
                 (''top_species_count'', series d ''topSpeciesCount'')])"
proof -
  let ?g = "\<lambda>i t. [(''time'', t),
      (''species_count'', at_or_missing (series d ''speciesCount'') i),
      (''top_species_count'', at_or_missing (series d ''topSpeciesCount'') i)]"
  let ?ts = "series d ''time''"
  let ?rs = "map (\<lambda>(j, x). ?g j x) (enumerate 0 ?ts)"
  have body: "\<And>i t. species_record (JObj d) i t = Inr (?g i t)"
    using assms by (simp add: species_record_def series_at_series)
  have loop: "enumerate_loop (species_record (JObj d)) 0 ?ts [] = Inr ?rs"
    using enumerate_loop_total [of "species_record (JObj d)" ?g 0 ?ts "[]"] body
    by simp
  have keys: "record_keys ?rs = (if ?rs = [] then []
      else [''time'', ''species_count'', ''top_species_count''])"
    by (rule record_keys_uniform) (auto simp: dict_keys_def)
  have frame: "pd_DataFrame ?rs =
      \<lparr>index_len = length ?ts,
       cols = (if ?ts = [] then []
               else [(''time'', store_column ?ts),
                     (''species_count'',
                      store_column (ragged_column (length ?ts) (series d ''speciesCount''))),
                     (''top_species_count'',
                      store_column (ragged_column (length ?ts) (series d ''topSpeciesCount'')))])\<rparr>"
    unfolding pd_DataFrame_def keys by (simp add: frame_simps ragged_column_def del: map_map)
  show ?thesis
    unfolding to_species_dataframe_def data_and_times_series [OF assms(1,2)]
    by (simp add: loop frame assign_range_def aligned_table_def)
qed

lemma interactions_closed_form:
  assumes "map_of kvs ''data'' = Some (JObj d)"
    and "is_series d ''time''" and "is_series d ''combatKills''"
    and "is_series d ''cooperationEvents''" and "is_series d ''averageGenomeLength''"
  shows "to_interactions_dataframe (JObj kvs) =
         Inr (aligned_table (series d ''time'')
                [(''combat_kills'', series d ''combatKills''),
                 (''cooperation_events'', series d ''cooperationEvents''),
                 (''average_genome_length'', series d ''averageGenomeLength'')])"
proof -
  let ?g = "\<lambda>i t. [(''time'', t),
      (''combat_kills'', at_or_missing (series d ''combatKills'') i),
      (''cooperation_events'', at_or_missing (series d ''cooperationEvents'') i),
      (''average_genome_length'', at_or_missing (series d ''averageGenomeLength'') i)]"
  let ?ts = "series d ''time''"
  let ?rs = "map (\<lambda>(j, x). ?g j x) (enumerate 0 ?ts)"
  have body: "\<And>i t. interactions_record (JObj d) i t = Inr (?g i t)"
    using assms by (simp add: interactions_record_def series_at_series)
  have loop: "enumerate_loop (interactions_record (JObj d)) 0 ?ts [] = Inr ?rs"
    using enumerate_loop_total [of "interactions_record (JObj d)" ?g 0 ?ts "[]"] body
    by simp
  have keys: "record_keys ?rs = (if ?rs = [] then []
      else [''time'', ''combat_kills'', ''cooperation_events'', ''average_genome_length''])"
    by (rule record_keys_uniform) (auto simp: dict_keys_def)
  have frame: "pd_DataFrame ?rs =
      \<lparr>index_len = length ?ts,
       cols = (if ?ts = [] then []
               else [(''time'', store_column ?ts),
                     (''combat_kills'',
                      store_column (ragged_column (length ?ts) (series d ''combatKills''))),
                     (''cooperation_events'',
                      store_column (ragged_column (length ?ts) (series d ''cooperationEvents''))),
                     (''average_genome_length'',
                      store_column (ragged_column (length ?ts) (series d ''averageGenomeLength'')))])\<rparr>"
    unfolding pd_DataFrame_def keys by (simp add: frame_simps ragged_column_def del: map_map)
  show ?thesis
    unfolding to_interactions_dataframe_def data_and_times_series [OF assms(1,2)]
    by (simp add: loop frame assign_range_def aligned_table_def)
qed

lemma closed_forms:
  assumes "map_of kvs ''data'' = Some (JObj d)" and "named_arrays d"
  shows "to_population_dataframe (JObj kvs) =
         Inr (aligned_table (series d ''time'')
                [(''alive_organisms'', series d ''aliveOrganisms''),
                 (''food_count'', series d ''foodCount''),
                 (''average_energy'', series d ''averageEnergy'')])"
    and "to_species_dataframe (JObj kvs) =
         Inr (aligned_table (series d ''time'')
                [(''species_count'', series d ''speciesCount''),
                 (''top_species_count'', series d ''topSpeciesCount'')])"
    and "to_interactions_dataframe (JObj kvs) =
         Inr (aligned_table (series d ''time'')
                [(''combat_kills'', series d ''combatKills''),
                 (''cooperation_events'', series d ''cooperationEvents''),
                 (''average_genome_length'', series d ''averageGenomeLength'')])"
  using assms
  by (simp_all add: named_arrays_def population_closed_form species_closed_form
      interactions_closed_form)

lemma ragged_column_take:
  assumes "take n ys = take n xs"
  shows "ragged_column n ys = ragged_column n xs"
  unfolding ragged_column_def
proof (rule map_cong [OF refl])
  fix j assume "j \<in> set [0..<n]"
  then have j: "j < n" by simp
  have "at_or_missing ys j = at_or_missing (take n ys) j"
    using j by (simp add: at_or_missing_def)
  also have "\<dots> = at_or_missing (take n xs) j" by (simp add: assms)
  also have "\<dots> = at_or_missing xs j"
    using j by (simp add: at_or_missing_def)
  finally show "at_or_missing ys j = at_or_missing xs j" .
qed

lemma to_float64_missing [simp]: "to_float64 JNull = JNull"
  by simp

subsection \<open>Integers as float64, and the cells of a stored column\<close>











section \<open>The claims\<close>

text \<open>
  In the statements a statistics document is a JSON object \<open>JObj kvs\<close>. Where a
  claim is about a document with a \<^verbatim>\<open>data\<close> mapping, the mapping \<open>d\<close> is one
  of named arrays (\<open>named_arrays d\<close>): each series the loader reads is an array or
  absent.
\<close>

subsection \<open>Rows, steps and cells of a projection\<close>

text \<open>
  C1. For a document with a \<^verbatim>\<open>data\<close> mapping of named arrays, each of the three
  projections returns a table; it has as many rows as \<^verbatim>\<open>data['time']\<close> has
  elements (none when \<^verbatim>\<open>time\<close> is absent), and its \<^verbatim>\<open>step\<close> column holds
  \<open>0, \<dots>, n - 1\<close> in row order.
\<close>

theorem projections_rows_and_step:
  assumes "map_of kvs ''data'' = Some (JObj d)" and "named_arrays d"
  shows "\<exists>p s i.
           to_population_dataframe (JObj kvs) = Inr p \<and>
           to_species_dataframe (JObj kvs) = Inr s \<and>
           to_interactions_dataframe (JObj kvs) = Inr i \<and>
           index_len p = length (series d ''time'') \<and>
           index_len s = length (series d ''time'') \<and>
           index_len i = length (series d ''time'') \<and>
           column p ''step'' = Some (map (\<lambda>j. JInt (int j)) [0..<length (series d ''time'')]) \<and>
           column s ''step'' = Some (map (\<lambda>j. JInt (int j)) [0..<length (series d ''time'')]) \<and>
           column i ''step'' = Some (map (\<lambda>j. JInt (int j)) [0..<length (series d ''time'')])"
  unfolding closed_forms [OF assms] by (simp add: column_def aligned_table_def)

theorem projections_rows_and_step_witness:
  "\<exists>p s i.
     to_population_dataframe (JObj ragged_doc) = Inr p \<and>
     to_species_dataframe (JObj ragged_doc) = Inr s \<and>
     to_interactions_dataframe (JObj ragged_doc) = Inr i \<and>
     index_len p = 3 \<and> index_len s = 3 \<and> index_len i = 3 \<and>
     column p ''step'' = Some [JInt 0, JInt 1, JInt 2] \<and>
     column s ''step'' = Some [JInt 0, JInt 1, JInt 2] \<and>
     column i ''step'' = Some [JInt 0, JInt 1, JInt 2]"
proof -
  have d: "map_of ragged_doc ''data'' = Some (JObj ragged_data)"
    by (simp add: ragged_doc_def)
  have a: "named_arrays ragged_data"
    by (simp add: named_arrays_def is_series_def ragged_data_def)
  have t: "series ragged_data ''time'' = [JInt 0, JInt 1, JInt 2]"
    by (simp add: series_def ragged_data_def)
  show ?thesis
    using projections_rows_and_step [OF d a] unfolding t by (simp add: numeral_3_eq_3)
qed




text \<open>
  C7. For a document with a \<^verbatim>\<open>data\<close> mapping of named arrays, a requested series
  that is absent from \<^verbatim>\<open>data\<close> counts as the empty sequence: the projection
  succeeds, and every row holds the missing marker in the field of that series.
\<close>

theorem absent_series_is_all_missing:
  assumes "map_of kvs ''data'' = Some (JObj d)" and "named_arrays d"
  shows "\<exists>p s i.
           to_population_dataframe (JObj kvs) = Inr p \<and>
           to_species_dataframe (JObj kvs) = Inr s \<and>
           to_interactions_dataframe (JObj kvs) = Inr i \<and>
           (\<forall>(key, field) \<in> set population_series. map_of d key = None \<longrightarrow>
              (\<forall>j < length (series d ''time''). row p j field = Some JNull)) \<and>
           (\<forall>(key, field) \<in> set species_series. map_of d key = None \<longrightarrow>
              (\<forall>j < length (series d ''time''). row s j field = Some JNull)) \<and>
           (\<forall>(key, field) \<in> set interactions_series. map_of d key = None \<longrightarrow>
              (\<forall>j < length (series d ''time''). row i j field = Some JNull))"
  unfolding closed_forms [OF assms]
  by (auto simp: population_series_def species_series_def interactions_series_def
      row_def aligned_table_def nth_store_column nth_ragged_column at_or_missing_def series_def)

theorem absent_series_is_all_missing_witness:
  "\<exists>p s i.
     to_population_dataframe (JObj ragged_doc) = Inr p \<and>
     to_species_dataframe (JObj ragged_doc) = Inr s \<and>
     to_interactions_dataframe (JObj ragged_doc) = Inr i \<and>
     map_of ragged_data ''foodCount'' = None \<and>
     row p 0 ''food_count'' = Some JNull \<and>
     row p 1 ''food_count'' = Some JNull \<and>
     row p 2 ''food_count'' = Some JNull \<and>
     map_of ragged_data ''speciesCount'' = None \<and>
     row s 0 ''species_count'' = Some JNull \<and>
     row s 2 ''species_count'' = Some JNull"
proof -
  have d: "map_of ragged_doc ''data'' = Some (JObj ragged_data)"
    by (simp add: ragged_doc_def)
  have a: "named_arrays ragged_data"
    by (simp add: named_arrays_def is_series_def ragged_data_def)
  have t: "length (series ragged_data ''time'') = 3"
    by (simp add: series_def ragged_data_def)
  have f: "map_of ragged_data ''foodCount'' = None" "map_of ragged_data ''speciesCount'' = None"
    by (simp_all add: ragged_data_def)
  from absent_series_is_all_missing [OF d a] obtain p s i where
    ok: "to_population_dataframe (JObj ragged_doc) = Inr p"
      "to_species_dataframe (JObj ragged_doc) = Inr s"
      "to_interactions_dataframe (JObj ragged_doc) = Inr i"
    and pc: "\<forall>(key, field) \<in> set population_series. map_of ragged_data key = None \<longrightarrow>
      (\<forall>j < length (series ragged_data ''time''). row p j field = Some JNull)"
    and sc: "\<forall>(key, field) \<in> set species_series. map_of ragged_data key = None \<longrightarrow>
      (\<forall>j < length (series ragged_data ''time''). row s j field = Some JNull)"
    by blast
  have "\<forall>j < 3. row p j ''food_count'' = Some JNull"
    using pc f unfolding population_series_def t by simp
  moreover have "\<forall>j < 3. row s j ''species_count'' = Some JNull"
    using sc f unfolding species_series_def t by simp
  ultimately show ?thesis using ok f by simp
qed

text \<open>
  C10. A series that is longer than \<^verbatim>\<open>time\<close> is cut off: two documents with
  the same \<^verbatim>\<open>time\<close> series of length \<open>n\<close>, whose metric series agree on their
  first \<open>n\<close> elements, have the same three tables, whatever the series hold from
  position \<open>n\<close> on; and each table has \<open>n\<close> rows, with \<open>n\<close> cells in every column.
\<close>

theorem overlong_series_truncated:
  assumes "map_of kvs ''data'' = Some (JObj d)" and "named_arrays d"
    and "map_of kvs' ''data'' = Some (JObj d')" and "named_arrays d'"
    and "series d' ''time'' = series d ''time''"
    and "\<forall>key \<in> set metric_keys.
           take (length (series d ''time'')) (series d' key) =
           take (length (series d ''time'')) (series d key)"
  shows "to_population_dataframe (JObj kvs') = to_population_dataframe (JObj kvs) \<and>
         to_species_dataframe (JObj kvs') = to_species_dataframe (JObj kvs) \<and>
         to_interactions_dataframe (JObj kvs') = to_interactions_dataframe (JObj kvs) \<and>
         (\<exists>p s i.
            to_population_dataframe (JObj kvs) = Inr p \<and>
            to_species_dataframe (JObj kvs) = Inr s \<and>
            to_interactions_dataframe (JObj kvs) = Inr i \<and>
            index_len p = length (series d ''time'') \<and>
            index_len s = length (series d ''time'') \<and>
            index_len i = length (series d ''time'') \<and>
            (\<forall>(c, vs) \<in> set (cols p). length vs = length (series d ''time'')) \<and>
            (\<forall>(c, vs) \<in> set (cols s). length vs = length (series d ''time'')) \<and>
            (\<forall>(c, vs) \<in> set (cols i). length vs = length (series d ''time'')))"
proof -
  have same: "\<And>key. key \<in> set metric_keys \<Longrightarrow>
      ragged_column (length (series d ''time'')) (series d' key) =
      ragged_column (length (series d ''time'')) (series d key)"
    using assms(6) by (intro ragged_column_take) simp
  have keys: "set metric_keys =
      {''aliveOrganisms'', ''foodCount'', ''averageEnergy'', ''speciesCount'',
       ''topSpeciesCount'', ''combatKills'', ''cooperationEvents'', ''averageGenomeLength''}"
    by (simp add: metric_keys_def population_series_def species_series_def
        interactions_series_def insert_commute)
  have eq: "to_population_dataframe (JObj kvs') = to_population_dataframe (JObj kvs)"
    "to_species_dataframe (JObj kvs') = to_species_dataframe (JObj kvs)"
    "to_interactions_dataframe (JObj kvs') = to_interactions_dataframe (JObj kvs)"
    unfolding closed_forms [OF assms(1,2)] closed_forms [OF assms(3,4)] assms(5)
    by (simp_all add: aligned_table_def same keys)
  show ?thesis
    unfolding eq unfolding closed_forms [OF assms(1,2)]
    by (simp add: aligned_table_def)
qed

theorem overlong_series_truncated_witness:
  "to_population_dataframe (JObj [(''data'', JObj overlong_data')]) =
     to_population_dataframe (JObj [(''data'', JObj overlong_data)]) \<and>
   to_species_dataframe (JObj [(''data'', JObj overlong_data')]) =
     to_species_dataframe (JObj [(''data'', JObj overlong_data)]) \<and>
   to_interactions_dataframe (JObj [(''data'', JObj overlong_data')]) =
     to_interactions_dataframe (JObj [(''data'', JObj overlong_data)]) \<and>
   length (series overlong_data ''time'') = 2 \<and>
   series overlong_data ''foodCount'' = [JInt 7, JInt 8, JInt 9, JInt 10] \<and>
   series overlong_data' ''foodCount'' = [JInt 7, JInt 8] \<and>
   series overlong_data ''speciesCount'' = [JInt 1, JInt 2, JInt 3] \<and>
   series overlong_data' ''speciesCount'' = [JInt 1, JInt 2, JStr ''x'']"
proof -
  have a: "named_arrays overlong_data" "named_arrays overlong_data'"
    by (simp_all add: named_arrays_def is_series_def overlong_data_def overlong_data'_def)
  have t: "series overlong_data' ''time'' = series overlong_data ''time''"
    by (simp add: series_def overlong_data_def overlong_data'_def)
  have k: "\<forall>key \<in> set metric_keys.
      take (length (series overlong_data ''time'')) (series overlong_data' key) =
      take (length (series overlong_data ''time'')) (series overlong_data key)"
    by (simp add: metric_keys_def population_series_def species_series_def
        interactions_series_def series_def overlong_data_def overlong_data'_def)
  show ?thesis
    using overlong_series_truncated [of "[(''data'', JObj overlong_data)]" overlong_data
        "[(''data'', JObj overlong_data')]" overlong_data', OF _ a(1) _ a(2) t k]
    by (simp add: series_def overlong_data_def overlong_data'_def)
qed

subsection \<open>The columns of a projection\<close>

text \<open>
  The columns that the three tables have: those of the docstrings and
  \<^verbatim>\<open>step\<close> when \<^verbatim>\<open>time\<close> has an element, and \<^verbatim>\<open>step\<close> alone when it
  has none, as \<^verbatim>\<open>pd.DataFrame([])\<close> has no column.
\<close>

lemma projection_columns:
  assumes "map_of kvs ''data'' = Some (JObj d)" and "named_arrays d"
  shows "\<exists>p s i.
           to_population_dataframe (JObj kvs) = Inr p \<and>
           to_species_dataframe (JObj kvs) = Inr s \<and>
           to_interactions_dataframe (JObj kvs) = Inr i \<and>
           columns p = (if series d ''time'' = [] then [''step'']
                        else [''time'', ''alive_organisms'', ''food_count'', ''average_energy'',
                              ''step'']) \<and>
           columns s = (if series d ''time'' = [] then [''step'']
                        else [''time'', ''species_count'', ''top_species_count'', ''step'']) \<and>
           columns i = (if series d ''time'' = [] then [''step'']
                        else [''time'', ''combat_kills'', ''cooperation_events'',
                              ''average_genome_length'', ''step''])"
  unfolding closed_forms [OF assms] by (simp add: columns_def aligned_table_def)

text \<open>
  C5. The claim is that each table has exactly the columns \<^verbatim>\<open>time\<close>, the fields
  of the requested series and \<^verbatim>\<open>step\<close>, also when \<^verbatim>\<open>time\<close> is empty or
  absent. On a document whose \<^verbatim>\<open>time\<close> series is empty, and on one where it is
  absent, the code returns tables with the single column \<^verbatim>\<open>step\<close>.
\<close>

theorem empty_time_table_has_only_step:
  "to_population_dataframe emptytime_doc = Inr \<lparr>index_len = 0, cols = [(''step'', [])]\<rparr> \<and>
   to_species_dataframe emptytime_doc = Inr \<lparr>index_len = 0, cols = [(''step'', [])]\<rparr> \<and>
   to_interactions_dataframe emptytime_doc = Inr \<lparr>index_len = 0, cols = [(''step'', [])]\<rparr> \<and>
   to_population_dataframe notime_doc = Inr \<lparr>index_len = 0, cols = [(''step'', [])]\<rparr> \<and>
   to_species_dataframe notime_doc = Inr \<lparr>index_len = 0, cols = [(''step'', [])]\<rparr> \<and>
   to_interactions_dataframe notime_doc = Inr \<lparr>index_len = 0, cols = [(''step'', [])]\<rparr> \<and>
   columns \<lparr>index_len = 0, cols = [(''step'', [])] :: (string \<times> unit json list) list\<rparr> = [''step'']"
  by (simp add: to_population_dataframe_def to_species_dataframe_def
      to_interactions_dataframe_def data_and_times_def emptytime_doc_def notime_doc_def
      pd_DataFrame_def record_keys_def assign_range_def columns_def)

subsection \<open>Errors\<close>

text \<open>
  C3. On a document without the key \<^verbatim>\<open>data\<close> each projection, called directly,
  raises the \<^verbatim>\<open>ValueError\<close> "No data found in statistics". When
  \<^verbatim>\<open>load_all_data\<close> has read such a document it catches each of the three
  failures, prints a warning for each, stores an empty table for each, and still
  stores the metadata.
\<close>

theorem missing_data_direct_and_load_all:
  assumes "map_of kvs ''data'' = None"
  shows "to_population_dataframe (JObj kvs) = Inl (ValueError ''No data found in statistics'') \<and>
         to_species_dataframe (JObj kvs) = Inl (ValueError ''No data found in statistics'') \<and>
         to_interactions_dataframe (JObj kvs) = Inl (ValueError ''No data found in statistics'') \<and>
         (load_statistics w self filename = Inr (JObj kvs) \<longrightarrow>
          load_all_data w self filename =
            ([''Warning: Could not load population data: No data found in statistics'',
              ''Warning: Could not load species data: No data found in statistics'',
              ''Warning: Could not load interactions data: No data found in statistics''],
             Inr \<lparr>population = pd_empty, species = pd_empty, interactions = pd_empty,
                  metadata = (case map_of kvs ''metadata'' of None \<Rightarrow> JObj [] | Some m \<Rightarrow> m)\<rparr>))"
proof -
  have dt: "data_and_times (JObj kvs) = Inl (ValueError ''No data found in statistics'')"
    using assms by (simp add: data_and_times_def)
  have direct:
    "to_population_dataframe (JObj kvs) = Inl (ValueError ''No data found in statistics'')"
    "to_species_dataframe (JObj kvs) = Inl (ValueError ''No data found in statistics'')"
    "to_interactions_dataframe (JObj kvs) = Inl (ValueError ''No data found in statistics'')"
    by (simp_all add: to_population_dataframe_def to_species_dataframe_def
        to_interactions_dataframe_def dt)
  show ?thesis
    by (simp add: direct load_all_data_def try_projection_def get_metadata_def)
qed

theorem missing_data_direct_and_load_all_witness:
  "to_population_dataframe (JObj nodata_doc) = Inl (ValueError ''No data found in statistics'') \<and>
   to_species_dataframe (JObj nodata_doc) = Inl (ValueError ''No data found in statistics'') \<and>
   to_interactions_dataframe (JObj nodata_doc) = Inl (ValueError ''No data found in statistics'') \<and>
   load_all_data example_world (SimulationDataLoader None) ''nodata.json'' =
     ([''Warning: Could not load population data: No data found in statistics'',
       ''Warning: Could not load species data: No data found in statistics'',
       ''Warning: Could not load interactions data: No data found in statistics''],
      Inr \<lparr>population = pd_empty, species = pd_empty, interactions = pd_empty,
           metadata = JObj [(''seed'', JInt 7)]\<rparr>)"
proof -
  have n: "map_of nodata_doc ''data'' = None" by (simp add: nodata_doc_def)
  have r: "load_statistics example_world (SimulationDataLoader None) ''nodata.json'' =
      Inr (JObj nodata_doc)"
    by (simp add: load_statistics_def example_world_def SimulationDataLoader_def)
  show ?thesis
    using missing_data_direct_and_load_all [OF n, of example_world "SimulationDataLoader None"
        "''nodata.json''"] r
    by (simp add: nodata_doc_def)
qed

text \<open>
  C4. When the path of the file does not exist, \<^verbatim>\<open>load_statistics\<close> raises
  \<^verbatim>\<open>FileNotFoundError\<close>; when its text is not valid JSON, it raises
  \<^verbatim>\<open>JSONDecodeError\<close>. Whatever \<^verbatim>\<open>load_statistics\<close> raises,
  \<^verbatim>\<open>load_all_data\<close> raises too, with nothing printed and no result, although
  \<^verbatim>\<open>JSONDecodeError\<close> is of a class its \<^verbatim>\<open>except\<close> clauses name.
\<close>

theorem read_failures_propagate:
  "(files w (joinpath w (data_dir self) filename) = None \<longrightarrow>
      load_statistics w self filename = Inl FileNotFoundError \<and>
      load_all_data w self filename = ([], Inl FileNotFoundError)) \<and>
   (\<forall>text. files w (joinpath w (data_dir self) filename) = Some text \<and> json_load w text = None \<longrightarrow>
      load_statistics w self filename = Inl JSONDecodeError \<and>
      load_all_data w self filename = ([], Inl JSONDecodeError)) \<and>
   (\<forall>e. load_statistics w self filename = Inl e \<longrightarrow>
      load_all_data w self filename = ([], Inl e))"
  by (simp add: load_statistics_def load_all_data_def)

theorem read_failures_propagate_witness:
  "load_statistics example_world (SimulationDataLoader None) ''missing.json'' = Inl FileNotFoundError \<and>
   load_all_data example_world (SimulationDataLoader None) ''missing.json'' = ([], Inl FileNotFoundError) \<and>
   load_statistics example_world (SimulationDataLoader None) ''broken.json'' = Inl JSONDecodeError \<and>
   load_all_data example_world (SimulationDataLoader None) ''broken.json'' = ([], Inl JSONDecodeError) \<and>
   is_caught JSONDecodeError"
  using read_failures_propagate [of example_world "SimulationDataLoader None" "''missing.json''"]
    read_failures_propagate [of example_world "SimulationDataLoader None" "''broken.json''"]
  by (simp add: example_world_def SimulationDataLoader_def)

text \<open>
  C9. \<^verbatim>\<open>load_all_data\<close> downgrades only the exceptions of the classes
  \<^verbatim>\<open>ValueError\<close>, \<^verbatim>\<open>KeyError\<close> and \<^verbatim>\<open>IndexError\<close>. Once the file is
  read, the first projection (in the order population, species, interactions) that
  raises another exception ends \<^verbatim>\<open>load_all_data\<close> with that exception; and
  when \<^verbatim>\<open>load_all_data\<close> returns, every projection that raised did so with an
  exception of those classes, and its table in the result is empty.
\<close>

theorem uncaught_errors_abort_load_all:
  assumes "load_statistics w self filename = Inr stats"
  shows
    "(\<forall>e. to_population_dataframe stats = Inl e \<and> \<not> is_caught e \<longrightarrow>
        snd (load_all_data w self filename) = Inl e) \<and>
     (\<forall>e. (\<forall>e'. to_population_dataframe stats = Inl e' \<longrightarrow> is_caught e') \<and>
          to_species_dataframe stats = Inl e \<and> \<not> is_caught e \<longrightarrow>
        snd (load_all_data w self filename) = Inl e) \<and>
     (\<forall>e. (\<forall>e'. to_population_dataframe stats = Inl e' \<longrightarrow> is_caught e') \<and>
          (\<forall>e'. to_species_dataframe stats = Inl e' \<longrightarrow> is_caught e') \<and>
          to_interactions_dataframe stats = Inl e \<and> \<not> is_caught e \<longrightarrow>
        snd (load_all_data w self filename) = Inl e) \<and>
     (\<forall>b. snd (load_all_data w self filename) = Inr b \<longrightarrow>
        (\<forall>e. to_population_dataframe stats = Inl e \<longrightarrow> is_caught e \<and> population b = pd_empty) \<and>
        (\<forall>e. to_species_dataframe stats = Inl e \<longrightarrow> is_caught e \<and> species b = pd_empty) \<and>
        (\<forall>e. to_interactions_dataframe stats = Inl e \<longrightarrow>
           is_caught e \<and> interactions b = pd_empty)) \<and>
     (\<forall>e. is_caught e \<longleftrightarrow>
        (\<exists>m. e = ValueError m) \<or> (\<exists>m. e = KeyError m) \<or> (\<exists>m. e = IndexError m) \<or>
        e = JSONDecodeError)"
proof -
  have kinds: "\<forall>e. is_caught e \<longleftrightarrow>
        (\<exists>m. e = ValueError m) \<or> (\<exists>m. e = KeyError m) \<or> (\<exists>m. e = IndexError m) \<or>
        e = JSONDecodeError"
  proof
    fix e show "is_caught e \<longleftrightarrow>
        (\<exists>m. e = ValueError m) \<or> (\<exists>m. e = KeyError m) \<or> (\<exists>m. e = IndexError m) \<or>
        e = JSONDecodeError"
      by (cases e) simp_all
  qed
  have first: "\<forall>e. to_population_dataframe stats = Inl e \<and> \<not> is_caught e \<longrightarrow>
        snd (load_all_data w self filename) = Inl e"
    by (simp add: load_all_data_def try_projection_def assms)
  have second: "\<forall>e. (\<forall>e'. to_population_dataframe stats = Inl e' \<longrightarrow> is_caught e') \<and>
          to_species_dataframe stats = Inl e \<and> \<not> is_caught e \<longrightarrow>
        snd (load_all_data w self filename) = Inl e"
    by (cases "to_population_dataframe stats")
      (simp_all add: load_all_data_def try_projection_def assms)
  have third: "\<forall>e. (\<forall>e'. to_population_dataframe stats = Inl e' \<longrightarrow> is_caught e') \<and>
          (\<forall>e'. to_species_dataframe stats = Inl e' \<longrightarrow> is_caught e') \<and>
          to_interactions_dataframe stats = Inl e \<and> \<not> is_caught e \<longrightarrow>
        snd (load_all_data w self filename) = Inl e"
    by (cases "to_population_dataframe stats"; cases "to_species_dataframe stats")
      (simp_all add: load_all_data_def try_projection_def assms)
  have only: "\<forall>b. snd (load_all_data w self filename) = Inr b \<longrightarrow>
        (\<forall>e. to_population_dataframe stats = Inl e \<longrightarrow> is_caught e \<and> population b = pd_empty) \<and>
        (\<forall>e. to_species_dataframe stats = Inl e \<longrightarrow> is_caught e \<and> species b = pd_empty) \<and>
        (\<forall>e. to_interactions_dataframe stats = Inl e \<longrightarrow>
           is_caught e \<and> interactions b = pd_empty)"
    by (cases "to_population_dataframe stats"; cases "to_species_dataframe stats";
        cases "to_interactions_dataframe stats"; cases "get_metadata stats")
      (auto simp: load_all_data_def try_projection_def assms split: if_splits)
  from first second third only kinds show ?thesis by blast
qed

theorem uncaught_errors_abort_load_all_witness:
  "to_population_dataframe listdata_doc = Inl AttributeError \<and>
   load_all_data example_world (SimulationDataLoader None) ''listdata.json'' =
     ([], Inl AttributeError) \<and>
   to_population_dataframe numtime_doc = Inl TypeError \<and>
   load_all_data example_world (SimulationDataLoader None) ''numtime.json'' =
     ([], Inl TypeError)"
proof -
  have r: "load_statistics example_world (SimulationDataLoader None) ''listdata.json'' =
      Inr listdata_doc"
    "load_statistics example_world (SimulationDataLoader None) ''numtime.json'' =
      Inr numtime_doc"
    by (simp_all add: load_statistics_def example_world_def SimulationDataLoader_def)
  have p: "to_population_dataframe listdata_doc = Inl AttributeError"
    "to_population_dataframe numtime_doc = Inl TypeError"
    by (simp_all add: to_population_dataframe_def data_and_times_def listdata_doc_def
        numtime_doc_def)
  have o: "fst (load_all_data example_world (SimulationDataLoader None) ''listdata.json'') = []"
    "fst (load_all_data example_world (SimulationDataLoader None) ''numtime.json'') = []"
    by (simp_all add: load_all_data_def try_projection_def r p)
  have "snd (load_all_data example_world (SimulationDataLoader None) ''listdata.json'') =
      Inl AttributeError"
    using uncaught_errors_abort_load_all [OF r(1)] p(1) by simp
  moreover have "snd (load_all_data example_world (SimulationDataLoader None) ''numtime.json'') =
      Inl TypeError"
    using uncaught_errors_abort_load_all [OF r(2)] p(2) by simp
  ultimately show ?thesis using o p by (simp add: prod_eq_iff)
qed

subsection \<open>Metadata and the convenience function\<close>

text \<open>
  C6. On a document (a JSON object) \<^verbatim>\<open>get_metadata\<close> never fails: it returns the
  empty mapping when the key \<^verbatim>\<open>metadata\<close> is absent, and otherwise the value
  stored under it, as it is.
\<close>

theorem get_metadata_total:
  "(map_of kvs ''metadata'' = None \<longrightarrow> get_metadata (JObj kvs) = Inr (JObj [])) \<and>
   (\<forall>m. map_of kvs ''metadata'' = Some m \<longrightarrow> get_metadata (JObj kvs) = Inr m)"
  by (simp add: get_metadata_def)

theorem get_metadata_total_witness:
  "get_metadata (JObj ragged_doc) = Inr (JObj []) \<and>
   get_metadata (JObj nodata_doc) = Inr (JObj [(''seed'', JInt 7)])"
  using get_metadata_total [of ragged_doc] get_metadata_total [of nodata_doc]
  by (simp add: ragged_doc_def nodata_doc_def)

text \<open>
  C8. For every file name and base directory (given or left to its default),
  \<^verbatim>\<open>load_simulation\<close> prints and returns or raises exactly what
  \<^verbatim>\<open>load_all_data\<close> does on a loader constructed with that directory.
\<close>

theorem load_simulation_is_load_all_data:
  "load_simulation w filename dir = load_all_data w (SimulationDataLoader dir) filename"
  by (cases dir) (simp_all add: load_simulation_def SimulationDataLoader_def)

end
